theory Spec2Isabelle
  imports
    Main
    "HOL-Library.AList"
    "HOL-Library.Sublist"
    "HOL-Library.Char_ord"
    "HOL-Library.List_Lexorder"
    "HOL-Library.Product_Lexorder"
begin

section \<open>The SD card key store of specter-diy (\<^verbatim>\<open>src/keystore/sdcard.py\<close>)\<close>

text \<open>
  A shallow embedding of class \<^verbatim>\<open>SDKeyStore\<close>. The object and the device it runs on
  are one explicit state (\<open>keystore\<close>) that every method takes and returns; an exception
  is the \<open>Inl\<close> branch of the result, and the state that the method had reached when it
  raised is returned with it. The answers of the user to the screens are arguments.
\<close>

subsection \<open>Python values\<close>

type_synonym bytes = string

text \<open>
  A Python \<^verbatim>\<open>str\<close> is modelled by its UTF-8 bytes, so \<^verbatim>\<open>encode()\<close> and
  \<^verbatim>\<open>decode()\<close> are the identity. Where the source compares a path with
  \<^verbatim>\<open>is\<close>, the object matters and not only its value: \<open>pystr\<close> is a string
  object, \<open>ident\<close> its identity and \<open>val\<close> its value. Paths are passed as such
  objects; every other string is its value.
\<close>

record pystr =
  ident :: nat
  val :: string

text \<open>The three values the methods return: \<^verbatim>\<open>True\<close>, \<^verbatim>\<open>False\<close>, \<^verbatim>\<open>None\<close>.\<close>

datatype pyret = PyTrue | PyFalse | PyNone

text \<open>
  \<open>KeyStoreError\<close> is the exception of the source. \<open>OSError\<close> is what the file
  system driver raises, \<open>AeadError\<close> what \<^verbatim>\<open>load_aead\<close> raises when the blob does
  not authenticate.
\<close>

datatype error = KeyStoreError string | OSError | AeadError

text \<open>\<^verbatim>\<open>str.replace(old, new)\<close>: every non-overlapping occurrence, from the left.\<close>

function replace_from :: "string \<Rightarrow> string \<Rightarrow> string \<Rightarrow> string" where
  "replace_from old new [] = []"
| "replace_from old new (x # xs) =
     (if old \<noteq> [] \<and> prefix old (x # xs)
      then new @ replace_from old new (drop (length old) (x # xs))
      else x # replace_from old new xs)"
  by pat_completeness auto
termination
  by (relation "measure (\<lambda>(old, new, s). length s)") auto

definition str_replace :: "string \<Rightarrow> string \<Rightarrow> string \<Rightarrow> string" where
  "str_replace s old new =
     (if old = [] then new @ concat (map (\<lambda>x. x # new) s) else replace_from old new s)"

text \<open>\<^verbatim>\<open>binascii.hexlify\<close>: two lowercase hexadecimal digits for each byte.\<close>

definition hexdigit :: "nat \<Rightarrow> char" where
  "hexdigit n = ''0123456789abcdef'' ! (n mod 16)"

definition hexlify :: "bytes \<Rightarrow> string" where
  "hexlify bs = concat (map (\<lambda>b. [hexdigit (of_char b div 16), hexdigit (of_char b)]) bs)"

subsection \<open>The platform: media driver and file system\<close>

datatype node = Dir | File bytes

text \<open>
  Modelled from the spec: module \<^verbatim>\<open>platform\<close> and the \<^verbatim>\<open>os\<close> calls are not part
  of the source file. Section 6 of the spec gives their interface (\<open>mediaPresent\<close>,
  \<open>mount\<close>, \<open>unmount\<close>, \<open>pathExists\<close>, \<open>listDirectory\<close>, \<open>removeFile\<close>), section 3
  the mount state of the removable root. The file system is an association list from
  full paths to nodes; \<open>io_fault\<close> lists the paths at which the driver fails to remove a
  file; \<open>rng\<close> is the state of the random generator that encryption draws its nonce from.
\<close>

record platform =
  sd_present :: bool
  sd_mounted :: bool
  fs :: "(string \<times> node) list"
  io_fault :: "string list"
  rng :: nat

definition is_sd_present :: "platform \<Rightarrow> bool" where
  "is_sd_present p = sd_present p"

definition mount_sdcard :: "platform \<Rightarrow> platform" where
  "mount_sdcard p = p\<lparr>sd_mounted := True\<rparr>"

definition unmount_sdcard :: "platform \<Rightarrow> platform" where
  "unmount_sdcard p = p\<lparr>sd_mounted := False\<rparr>"

definition file_exists :: "platform \<Rightarrow> string \<Rightarrow> bool" where
  "file_exists p path = (map_of (fs p) path \<noteq> None)"

definition child_name :: "string \<Rightarrow> string \<Rightarrow> string option" where
  "child_name dir path =
     (let name = drop (length dir + 1) path
      in if prefix (dir @ ''/'') path \<and> name \<noteq> [] \<and> CHR ''/'' \<notin> set name
         then Some name else None)"

text \<open>\<^verbatim>\<open>os.ilistdir(path)\<close>: the names in a directory (\<^verbatim>\<open>file[0]\<close> of each entry).\<close>

definition ilistdir :: "platform \<Rightarrow> string \<Rightarrow> error + string list" where
  "ilistdir p dir =
     (if map_of (fs p) dir = Some Dir
      then Inr (List.map_filter (child_name dir) (map fst (fs p)))
      else Inl OSError)"

text \<open>\<^verbatim>\<open>os.remove(path)\<close>: raises unless \<open>path\<close> is a file that the driver can remove.\<close>

definition os_remove :: "platform \<Rightarrow> string \<Rightarrow> error + platform" where
  "os_remove p path =
     (case map_of (fs p) path of
        Some (File b) \<Rightarrow>
          if path \<in> set (io_fault p) then Inl OSError
          else Inr (p\<lparr>fs := filter (\<lambda>e. fst e \<noteq> path) (fs p)\<rparr>)
      | _ \<Rightarrow> Inl OSError)"

subsection \<open>The cryptographic primitives\<close>

text \<open>
  The tagged hash and the authenticated encryption are outside the source file; they are
  parameters. \<open>aead_encrypt key nonce adata plaintext\<close> is the blob,
  \<open>aead_decrypt key blob\<close> the pair of associated data and plaintext, or \<open>None\<close> when
  the blob does not authenticate.
\<close>

record crypto =
  tagged_hash :: "string \<Rightarrow> bytes \<Rightarrow> bytes"
  aead_encrypt :: "bytes \<Rightarrow> nat \<Rightarrow> bytes \<Rightarrow> bytes \<Rightarrow> bytes"
  aead_decrypt :: "bytes \<Rightarrow> bytes \<Rightarrow> (bytes \<times> bytes) option"

text \<open>
  Modelled from the spec: \<^verbatim>\<open>save_aead\<close> and \<^verbatim>\<open>load_aead\<close> are inherited from
  \<^verbatim>\<open>FlashKeyStore\<close>, which is not part of the source file. Section 6 of the spec:
  \<open>encrypt(path, plaintext, key)\<close> writes the blob to the path, with a fresh nonce for
  each call (section 4.4); \<open>(metadata, plaintext) = decrypt(path, key)\<close> reads it and
  fails the call if authentication fails.
\<close>

definition save_aead :: "crypto \<Rightarrow> platform \<Rightarrow> string \<Rightarrow> bytes \<Rightarrow> bytes \<Rightarrow> error + platform" where
  "save_aead c p path plaintext key =
     (if map_of (fs p) path = Some Dir then Inl OSError
      else Inr (p\<lparr>fs := AList.update path (File (aead_encrypt c key (rng p) [] plaintext)) (fs p),
                  rng := Suc (rng p)\<rparr>))"

definition load_aead :: "crypto \<Rightarrow> platform \<Rightarrow> string \<Rightarrow> bytes \<Rightarrow> error + (bytes \<times> bytes)" where
  "load_aead c p path key =
     (case map_of (fs p) path of
        Some (File blob) \<Rightarrow>
          (case aead_decrypt c key blob of
             None \<Rightarrow> Inl AeadError
           | Some r \<Rightarrow> Inr r)
      | _ \<Rightarrow> Inl OSError)"

subsection \<open>The screens and the user\<close>

text \<open>
  \<^verbatim>\<open>await self.show(scr)\<close> puts a screen on the display and returns what the user
  answers. The screens shown are logged in the state, in order.
\<close>

datatype screen =
    MediaMenu string "string option" bool bool
  | FileMenu "(string \<times> string) list"
  | Prompt string string
  | Alert string string
  | InputScreen string string string
  | StorageMenu
  | MnemonicScreen "string option"

text \<open>
  The answers of the user during one operation: the button pressed in the media menu
  (\<^verbatim>\<open>None\<close> is Back), the answer to the overwrite prompt, the button pressed in the
  file menu (\<^verbatim>\<open>None\<close> is Cancel).
\<close>

record user =
  media_choice :: "pystr option"
  overwrite_choice :: bool
  file_choice :: "string option"

subsection \<open>The key store\<close>

record keystore =
  is_locked :: bool
  mnemonic :: "string option"
  passphrase :: string
  secret :: bytes
  enc_secret :: bytes
  flashpath :: pystr
  sdpath :: string
  plat :: platform
  display :: "screen list"

definition show_screen :: "keystore \<Rightarrow> screen \<Rightarrow> keystore" where
  "show_screen ks scr = ks\<lparr>display := display ks @ [scr]\<rparr>"

text \<open>
  Modelled from the spec: \<^verbatim>\<open>set_mnemonic\<close> is inherited and not part of the source
  file. Section 6 of the spec: \<open>setMnemonic(text, passphrase)\<close> is the mutator of the
  in-memory mnemonic of the session.
\<close>

definition set_mnemonic :: "keystore \<Rightarrow> string \<Rightarrow> string \<Rightarrow> keystore" where
  "set_mnemonic ks m pw = ks\<lparr>mnemonic := Some m, passphrase := pw\<rparr>"

text \<open>
  \<^verbatim>\<open>fileprefix\<close>, lines 36 to 41. The test is \<^verbatim>\<open>path is self.flashpath\<close>: it
  compares the objects.
\<close>

definition fileprefix :: "crypto \<Rightarrow> keystore \<Rightarrow> pystr \<Rightarrow> string" where
  "fileprefix c ks path =
     (if ident path = ident (flashpath ks) then ''reckless''
      else (let hexid = hexlify (take 4 (tagged_hash c ''sdid'' (secret ks)))
            in ''specterdiy'' @ hexid))"

text \<open>
  \<^verbatim>\<open>get_keypath\<close>, lines 43 to 58. The result is the answer of the user to the menu;
  which buttons were enabled is in the logged screen.
\<close>

definition get_keypath ::
    "keystore \<Rightarrow> string \<Rightarrow> bool \<Rightarrow> string option \<Rightarrow> user \<Rightarrow> pystr option \<times> keystore" where
  "get_keypath ks title only_if_exist note u =
     (let enable_flash = (\<not> only_if_exist \<or> file_exists (plat ks) (val (flashpath ks)));
          p1 = (if is_sd_present (plat ks) then mount_sdcard (plat ks) else plat ks);
          enable_sd = (is_sd_present (plat ks) \<and> (\<not> only_if_exist \<or> file_exists p1 (sdpath ks)));
          p2 = (if is_sd_present (plat ks) then unmount_sdcard p1 else p1);
          ks1 = show_screen (ks\<lparr>plat := p2\<rparr>) (MediaMenu title note enable_flash enable_sd)
      in (media_choice u, ks1))"

text \<open>
  \<^verbatim>\<open>select_file\<close>, lines 132 to 153. \<open>displayname\<close> is lines 137 to 141 for one
  file name. The test \<^verbatim>\<open>displayname is ""\<close> compares with the empty string literal;
  the runtime of the device keeps one object for the empty string, so the test holds
  exactly when the value is empty.
\<close>

definition displayname :: "string \<Rightarrow> string \<Rightarrow> string" where
  "displayname pfx file0 =
     (let d = str_replace file0 pfx ''''
      in if d = '''' then ''Default'' else drop 1 d)"

definition matching_files :: "string list \<Rightarrow> string \<Rightarrow> (string \<times> string) list" where
  "matching_files listing pfx =
     map (\<lambda>file0. (file0, displayname pfx file0)) (filter (prefix pfx) listing)"

definition file_buttons :: "string list \<Rightarrow> string \<Rightarrow> error + (string \<times> string) list" where
  "file_buttons listing pfx =
     (let files = matching_files listing pfx
      in if length files = 0 then Inl (KeyStoreError ''\<newline>\<newline>No matching files found'')
         else Inr (sort files))"

definition select_file ::
    "keystore \<Rightarrow> pystr \<Rightarrow> string \<Rightarrow> user \<Rightarrow> (error + string option) \<times> keystore" where
  "select_file ks path pfx u =
     (case ilistdir (plat ks) (val path) of
        Inl e \<Rightarrow> (Inl e, ks)
      | Inr listing \<Rightarrow>
          (case file_buttons listing pfx of
             Inl e \<Rightarrow> (Inl e, ks)
           | Inr buttons \<Rightarrow> (Inr (file_choice u), show_screen ks (FileMenu buttons))))"

text \<open>\<^verbatim>\<open>load_mnemonic\<close>, lines 103 to 130.\<close>

definition load_mnemonic ::
    "crypto \<Rightarrow> keystore \<Rightarrow> pystr option \<Rightarrow> string option \<Rightarrow> user \<Rightarrow> (error + pyret) \<times> keystore" where
  "load_mnemonic c ks path file u =
     (if is_locked ks then (Inl (KeyStoreError ''Keystore is locked''), ks)
      else
        case (case path of
                None \<Rightarrow> get_keypath ks ''From where to load?'' True (Some ''Select media'') u
              | Some p \<Rightarrow> (Some p, ks)) of
          (None, ks1) \<Rightarrow> (Inr PyFalse, ks1)
        | (Some p, ks1) \<Rightarrow>
            if val p = sdpath ks1 \<and> \<not> is_sd_present (plat ks1)
            then (Inl (KeyStoreError ''SD card is not present''), ks1)
            else
              let ks2 = (if val p = sdpath ks1 then ks1\<lparr>plat := mount_sdcard (plat ks1)\<rparr> else ks1)
              in case (case file of
                         None \<Rightarrow> select_file ks2 p (fileprefix c ks2 p) u
                       | Some f \<Rightarrow> (Inr (Some f), ks2)) of
                   (Inl e, ks3) \<Rightarrow> (Inl e, ks3)
                 | (Inr None, ks3) \<Rightarrow> (Inr PyFalse, ks3)
                 | (Inr (Some f), ks3) \<Rightarrow>
                     if \<not> file_exists (plat ks3) (val p @ ''/'' @ f)
                     then (Inl (KeyStoreError ''Key is not saved''), ks3)
                     else
                       case load_aead c (plat ks3) (val p @ ''/'' @ f) (enc_secret ks3) of
                         Inl e \<Rightarrow> (Inl e, ks3)
                       | Inr (adata, data) \<Rightarrow>
                           let ks4 = (if val p = sdpath ks3
                                      then ks3\<lparr>plat := unmount_sdcard (plat ks3)\<rparr> else ks3)
                           in (Inr PyTrue, set_mnemonic ks4 data ''''))"

text \<open>
  \<^verbatim>\<open>save_mnemonic\<close>, lines 60 to 91. The result of the final \<^verbatim>\<open>load_mnemonic\<close> is
  dropped; an exception it raises leaves \<^verbatim>\<open>save_mnemonic\<close> as well.
\<close>

definition save_mnemonic ::
    "crypto \<Rightarrow> keystore \<Rightarrow> string \<Rightarrow> pystr option \<Rightarrow> user \<Rightarrow> (error + pyret) \<times> keystore" where
  "save_mnemonic c ks filename path u =
     (if is_locked ks then (Inl (KeyStoreError ''Keystore is locked''), ks)
      else if mnemonic ks = None then (Inl (KeyStoreError ''Recovery phrase is not loaded''), ks)
      else
        case (case path of
                None \<Rightarrow> get_keypath ks ''Where to save?'' False (Some ''Select media'') u
              | Some p \<Rightarrow> (Some p, ks)) of
          (None, ks1) \<Rightarrow> (Inr PyFalse, ks1)
        | (Some p, ks1) \<Rightarrow>
            if val p = sdpath ks1 \<and> \<not> is_sd_present (plat ks1)
            then (Inl (KeyStoreError ''SD card is not present''), ks1)
            else
              let ks2 = (if val p = sdpath ks1 then ks1\<lparr>plat := mount_sdcard (plat ks1)\<rparr> else ks1);
                  target = val p @ ''/'' @ fileprefix c ks2 p @ ''.'' @ filename;
                  asked = file_exists (plat ks2) target;
                  ks3 = (if asked
                         then show_screen ks2
                                (Prompt (''\<newline>\<newline>File already exists: '' @ filename @ ''\<newline>'')
                                        ''Would you like to overwrite this file?'')
                         else ks2)
              in if asked \<and> \<not> overwrite_choice u then (Inr PyNone, ks3)
                 else
                   case save_aead c (plat ks3) target (the (mnemonic ks3)) (enc_secret ks3) of
                     Inl e \<Rightarrow> (Inl e, ks3)
                   | Inr p4 \<Rightarrow>
                       let ks4 = ks3\<lparr>plat := p4\<rparr>;
                           ks5 = (if val p = sdpath ks4
                                  then ks4\<lparr>plat := unmount_sdcard (plat ks4)\<rparr> else ks4)
                       in case load_mnemonic c ks5 (Some p)
                                 (Some (fileprefix c ks5 p @ ''.'' @ filename)) u of
                            (Inl e, ks6) \<Rightarrow> (Inl e, ks6)
                          | (Inr r, ks6) \<Rightarrow> (Inr PyTrue, ks6))"

text \<open>
  \<^verbatim>\<open>delete_mnemonic\<close>, lines 155 to 179. \<open>pending\<close> is the exception in flight when
  the \<^verbatim>\<open>finally\<close> block starts; the block ends in \<^verbatim>\<open>return True\<close>, and a
  \<^verbatim>\<open>return\<close> in a \<^verbatim>\<open>finally\<close> block discards the exception in flight.
\<close>

definition delete_mnemonic ::
    "crypto \<Rightarrow> keystore \<Rightarrow> pystr option \<Rightarrow> user \<Rightarrow> (error + pyret) \<times> keystore" where
  "delete_mnemonic c ks path u =
     (case (case path of
              None \<Rightarrow> get_keypath ks ''From where to delete?'' True None u
            | Some p \<Rightarrow> (Some p, ks)) of
        (None, ks1) \<Rightarrow> (Inr PyFalse, ks1)
      | (Some p, ks1) \<Rightarrow>
          if val p = sdpath ks1 \<and> \<not> is_sd_present (plat ks1)
          then (Inl (KeyStoreError ''SD card is not present''), ks1)
          else
            let ks2 = (if val p = sdpath ks1 then ks1\<lparr>plat := mount_sdcard (plat ks1)\<rparr> else ks1)
            in case select_file ks2 p (fileprefix c ks2 p) u of
                 (Inl e, ks3) \<Rightarrow> (Inl e, ks3)
               | (Inr None, ks3) \<Rightarrow> (Inr PyFalse, ks3)
               | (Inr (Some f), ks3) \<Rightarrow>
                   if \<not> file_exists (plat ks3) (val p @ ''/'' @ f)
                   then (Inl (KeyStoreError ''File not found.''), ks3)
                   else
                     let (pending, ks4) =
                           (case os_remove (plat ks3) (val p @ ''/'' @ f) of
                              Inl e \<Rightarrow>
                                (Some (KeyStoreError (''Failed to delete file '' @ [CHR 0x27] @ f
                                                      @ [CHR 0x27] @ '' from '' @ val p)), ks3)
                            | Inr p' \<Rightarrow> (None, ks3\<lparr>plat := p'\<rparr>));
                         ks5 = (if val p = sdpath ks4
                                then ks4\<lparr>plat := unmount_sdcard (plat ks4)\<rparr> else ks4)
                     in (Inr PyTrue, ks5))"

text \<open>
  \<^verbatim>\<open>get_input\<close>, lines 181 to 190: the value of the input screen is the answer of the
  user (\<^verbatim>\<open>None\<close> when the input is cancelled).
\<close>

definition get_input :: "keystore \<Rightarrow> string option \<Rightarrow> string option \<times> keystore" where
  "get_input ks answer =
     (answer,
      show_screen ks
        (InputScreen ''Enter a name for this seed''
           (''Naming your seeds allows you to store multiple.\<newline>'' @ ''Give each seed a unique name!'')
           ''''))"

text \<open>
  Modelled from the spec: \<^verbatim>\<open>show_mnemonic\<close> is inherited and not part of the source
  file; section 4.5 of the spec calls it ShowPhrase. It shows the recovery phrase.
\<close>

definition show_mnemonic :: "keystore \<Rightarrow> keystore" where
  "show_mnemonic ks = show_screen ks (MnemonicScreen (mnemonic ks))"

text \<open>
  \<^verbatim>\<open>storage_menu\<close>, lines 192 to 238. The test \<^verbatim>\<open>filename is ""\<close> is
  modelled as the one in \<^verbatim>\<open>select_file\<close>: it holds when the name is empty. One \<open>menu_step\<close> is what the user does in one
  round of the loop: the button of the storage menu (255 is Back), the name typed when
  the round asks for one, and the answers to the screens of the operation. The loop
  ends in one of three ways: the method returns, it raises, or (when the steps are used
  up) it is still waiting in the storage menu for the next button.
\<close>

record menu_step =
  menuitem :: nat
  name_input :: "string option"
  answers :: user

datatype menu_end = Returned | Raised error | Waiting

fun storage_menu :: "crypto \<Rightarrow> keystore \<Rightarrow> menu_step list \<Rightarrow> menu_end \<times> keystore" where
  "storage_menu c ks [] = (Waiting, show_screen ks StorageMenu)"
| "storage_menu c ks (st # rest) =
     (let ks0 = show_screen ks StorageMenu
      in if menuitem st = 255 then (Returned, ks0)
         else if menuitem st = 0 then
           (case get_input ks0 (name_input st) of
              (None, ks1) \<Rightarrow> (Returned, ks1)
            | (Some filename, ks1) \<Rightarrow>
                if filename = '''' then
                  (Returned,
                   show_screen ks1
                     (Alert ''Error!''
                        (''Please provide a valid name!\<newline>\<newline>'' @ ''Your file has NOT been saved.'')))
                else
                  (case save_mnemonic c ks1 filename None (answers st) of
                     (Inl e, ks2) \<Rightarrow> (Raised e, ks2)
                   | (Inr r, ks2) \<Rightarrow>
                       storage_menu c
                         (if r = PyTrue
                          then show_screen ks2
                                 (Alert ''Success!'' (''Your key is stored now.\<newline>\<newline>Name: '' @ filename))
                          else ks2)
                         rest))
         else if menuitem st = 1 then
           (case load_mnemonic c ks0 None None (answers st) of
              (Inl e, ks2) \<Rightarrow> (Raised e, ks2)
            | (Inr r, ks2) \<Rightarrow>
                storage_menu c
                  (if r = PyTrue then show_screen ks2 (Alert ''Success!'' ''Your key is loaded.'')
                   else ks2)
                  rest)
         else if menuitem st = 2 then
           (case delete_mnemonic c ks0 None (answers st) of
              (Inl e, ks2) \<Rightarrow> (Raised e, ks2)
            | (Inr r, ks2) \<Rightarrow>
                storage_menu c
                  (if r = PyTrue then show_screen ks2 (Alert ''Success!'' ''Your key is deleted.'')
                   else ks2)
                  rest)
         else if menuitem st = 3 then storage_menu c (show_mnemonic ks0) rest
         else storage_menu c ks0 rest)"

subsection \<open>A device for the examples\<close>

text \<open>
  A toy instance of the primitives and a device with one record on each medium. The
  toy hash prepends the tag, so the prefix on the SD card is \<open>specterdiy\<close> followed by
  the hexadecimal digits of \<open>sdid\<close>; the toy encryption prepends the key, and
  decryption checks it.
\<close>

definition example_crypto :: crypto where
  "example_crypto =
     \<lparr>tagged_hash = (\<lambda>tag msg. tag @ msg),
      aead_encrypt = (\<lambda>key nonce adata pt. key @ pt),
      aead_decrypt = (\<lambda>key blob. if take (length key) blob = key
                                   then Some ([], drop (length key) blob) else None)\<rparr>"

definition example_platform :: platform where
  "example_platform =
     \<lparr>sd_present = True, sd_mounted = False,
      fs = [(''/flash'', Dir), (''/sd'', Dir),
            (''/flash/reckless.main'', File ''Kold words''),
            (''/sd/specterdiy73646964.main'', File ''Kzoo zone'')],
      io_fault = [], rng = 0\<rparr>"

definition example_keystore :: keystore where
  "example_keystore =
     \<lparr>is_locked = False, mnemonic = Some ''abandon ability'', passphrase = ''pass'',
      secret = ''S'', enc_secret = ''K'',
      flashpath = \<lparr>ident = 1, val = ''/flash''\<rparr>, sdpath = ''/sd'',
      plat = example_platform, display = []\<rparr>"

definition example_sd :: pystr where
  "example_sd = \<lparr>ident = 2, val = ''/sd''\<rparr>"

definition example_user :: user where
  "example_user = \<lparr>media_choice = None, overwrite_choice = False, file_choice = None\<rparr>"

text \<open>The same device with a card on which the record cannot be removed.\<close>

definition faulty_keystore :: keystore where
  "faulty_keystore =
     example_keystore\<lparr>plat := example_platform\<lparr>io_fault := [''/sd/specterdiy73646964.main'']\<rparr>\<rparr>"

text \<open>The same device, locked.\<close>

definition locked_keystore :: keystore where
  "locked_keystore = example_keystore\<lparr>is_locked := True\<rparr>"

text \<open>The toy primitives with a decryption that never authenticates.\<close>

definition broken_crypto :: crypto where
  "broken_crypto = example_crypto\<lparr>aead_decrypt := (\<lambda>key blob. None)\<rparr>"

section \<open>Properties\<close>

lemmas model_defs =
  save_mnemonic_def load_mnemonic_def delete_mnemonic_def select_file_def
  file_buttons_def matching_files_def displayname_def str_replace_def get_keypath_def
  fileprefix_def hexlify_def hexdigit_def is_sd_present_def mount_sdcard_def unmount_sdcard_def
  file_exists_def ilistdir_def child_name_def os_remove_def save_aead_def load_aead_def
  show_screen_def set_mnemonic_def get_input_def show_mnemonic_def List.map_filter_def

lemmas example_defs =
  example_crypto_def example_platform_def example_keystore_def example_sd_def example_user_def
  faulty_keystore_def locked_keystore_def broken_crypto_def

subsection \<open>Deleting a record\<close>

text \<open>
  Every result that \<^verbatim>\<open>delete_mnemonic\<close> can have. The error that line 175 builds for a
  failed removal is not among them.
\<close>

lemma select_file_errors:
  assumes "select_file ks p pfx u = (Inl e, ks')"
  shows "e = OSError \<or> e = KeyStoreError ''\<newline>\<newline>No matching files found''"
proof (cases "ilistdir (plat ks) (val p)")
  case (Inl a)
  then have "a = OSError" by (simp add: ilistdir_def split: if_splits)
  with Inl assms show ?thesis by (simp add: select_file_def)
next
  case (Inr listing)
  show ?thesis
  proof (cases "file_buttons listing pfx")
    case (Inl a)
    then have "a = KeyStoreError ''\<newline>\<newline>No matching files found''"
      by (simp add: file_buttons_def Let_def split: if_splits)
    with Inl Inr assms show ?thesis by (simp add: select_file_def)
  next
    case (Inr buttons)
    with \<open>ilistdir (plat ks) (val p) = Inr listing\<close> assms show ?thesis
      by (simp add: select_file_def)
  qed
qed

lemma delete_mnemonic_results:
  "fst (delete_mnemonic c ks path u) \<in>
     {Inr PyTrue, Inr PyFalse,
      Inl (KeyStoreError ''SD card is not present''),
      Inl (KeyStoreError ''File not found.''),
      Inl (KeyStoreError ''\<newline>\<newline>No matching files found''),
      Inl OSError}"
proof -
  obtain po ks1 where r1: "(case path of
              None \<Rightarrow> get_keypath ks ''From where to delete?'' True None u
            | Some p \<Rightarrow> (Some p, ks)) = (po, ks1)" by force
  show ?thesis
  proof (cases po)
    case None
    with r1 show ?thesis by (simp add: delete_mnemonic_def)
  next
    case (Some p)
    define ks2 where "ks2 = (if val p = sdpath ks1 then ks1\<lparr>plat := mount_sdcard (plat ks1)\<rparr> else ks1)"
    obtain fo ks3 where r3: "select_file ks2 p (fileprefix c ks2 p) u = (fo, ks3)" by force
    have eq: "fst (delete_mnemonic c ks path u) =
       (if val p = sdpath ks1 \<and> \<not> is_sd_present (plat ks1)
          then Inl (KeyStoreError ''SD card is not present'')
          else case fo of
                 Inl e \<Rightarrow> Inl e
               | Inr None \<Rightarrow> Inr PyFalse
               | Inr (Some f) \<Rightarrow>
                   if \<not> file_exists (plat ks3) (val p @ ''/'' @ f)
                   then Inl (KeyStoreError ''File not found.'')
                   else Inr PyTrue)"
      unfolding delete_mnemonic_def Let_def r1 Some
      by (simp add: r3 ks2_def [symmetric] case_prod_beta split: sum.splits option.splits)
    show ?thesis
    proof (cases fo)
      case (Inl e)
      with r3 select_file_errors have "e = OSError \<or> e = KeyStoreError ''\<newline>\<newline>No matching files found''"
        by blast
      with Inl show ?thesis unfolding eq by auto
    next
      case (Inr x)
      then show ?thesis unfolding eq by (cases x) auto
    qed
  qed
qed

text \<open>
  Claim C1 says that \<^verbatim>\<open>delete_mnemonic\<close> reports a failed removal to its caller. The
  code does not: on the device whose driver fails to remove the record on the card,
  \<^verbatim>\<open>os.remove\<close> raises, the \<^verbatim>\<open>except\<close> block raises the \<open>KeyStoreError\<close>, and
  the \<^verbatim>\<open>return True\<close> of the \<^verbatim>\<open>finally\<close> block replaces it. The method returns
  \<^verbatim>\<open>True\<close> and the record is still on the card.
\<close>

theorem delete_mnemonic_discards_removal_error:
  "os_remove (plat faulty_keystore) ''/sd/specterdiy73646964.main'' = Inl OSError \<and>
   delete_mnemonic example_crypto faulty_keystore (Some example_sd)
       (example_user\<lparr>file_choice := Some ''specterdiy73646964.main''\<rparr>)
     = (Inr PyTrue,
        faulty_keystore\<lparr>display := [FileMenu [(''specterdiy73646964.main'', ''main'')]]\<rparr>)"
  by (simp add: model_defs example_defs)

text \<open>On a locked key store \<^verbatim>\<open>save_mnemonic\<close> and \<^verbatim>\<open>load_mnemonic\<close> raise at once.\<close>

lemma save_mnemonic_locked:
  "save_mnemonic c (ks\<lparr>is_locked := True\<rparr>) filename path u
     = (Inl (KeyStoreError ''Keystore is locked''), ks\<lparr>is_locked := True\<rparr>)"
  by (simp add: save_mnemonic_def)

lemma load_mnemonic_locked:
  "load_mnemonic c (ks\<lparr>is_locked := True\<rparr>) path file u
     = (Inl (KeyStoreError ''Keystore is locked''), ks\<lparr>is_locked := True\<rparr>)"
  by (simp add: load_mnemonic_def)

text \<open>
  Claim C8 says that each of the three operations fails on a locked key store before any
  side effect. \<^verbatim>\<open>save_mnemonic\<close> and \<^verbatim>\<open>load_mnemonic\<close> do; \<^verbatim>\<open>delete_mnemonic\<close>
  has no such test: on the locked device it mounts the card, removes the record and
  returns \<^verbatim>\<open>True\<close>.
\<close>

theorem delete_mnemonic_ignores_lock:
  "is_locked locked_keystore \<and>
   delete_mnemonic example_crypto locked_keystore (Some example_sd)
       (example_user\<lparr>file_choice := Some ''specterdiy73646964.main''\<rparr>)
     = (Inr PyTrue,
        locked_keystore
          \<lparr>plat := example_platform
                    \<lparr>fs := [(''/flash'', Dir), (''/sd'', Dir),
                            (''/flash/reckless.main'', File ''Kold words'')]\<rparr>,
           display := [FileMenu [(''specterdiy73646964.main'', ''main'')]]\<rparr>)"
  by (simp add: model_defs example_defs)

subsection \<open>The mount state of the card\<close>

text \<open>
  Claim C2 says that the card is unmounted when an operation on it returns or raises,
  whatever the outcome. The code unmounts on the path to \<^verbatim>\<open>return True\<close> only. On the
  example device, whose card starts unmounted: \<^verbatim>\<open>save_mnemonic\<close> with the overwrite
  prompt declined returns \<^verbatim>\<open>None\<close> with the card mounted; \<^verbatim>\<open>load_mnemonic\<close> and
  \<^verbatim>\<open>delete_mnemonic\<close> with the file menu cancelled return \<^verbatim>\<open>False\<close> with the card
  mounted.
\<close>

theorem cancelled_operation_leaves_card_mounted:
  "\<not> sd_mounted (plat example_keystore) \<and>
   fst (save_mnemonic example_crypto example_keystore ''main'' (Some example_sd) example_user)
     = Inr PyNone \<and>
   sd_mounted (plat (snd (save_mnemonic example_crypto example_keystore ''main''
                            (Some example_sd) example_user))) \<and>
   fst (load_mnemonic example_crypto example_keystore (Some example_sd) None example_user)
     = Inr PyFalse \<and>
   sd_mounted (plat (snd (load_mnemonic example_crypto example_keystore (Some example_sd) None
                            example_user))) \<and>
   fst (delete_mnemonic example_crypto example_keystore (Some example_sd) example_user)
     = Inr PyFalse \<and>
   sd_mounted (plat (snd (delete_mnemonic example_crypto example_keystore (Some example_sd)
                            example_user)))"
  by (simp add: model_defs example_defs)

subsection \<open>File names\<close>

text \<open>
  What holds of the file menu for every listing and prefix: the buttons are the entries
  whose name starts with the prefix, in the order of their names, each with the label that
  \<open>displayname\<close> computes; there is no button exactly when the method raises.
\<close>

lemma sorted_map_fst:
  fixes xs :: "('a::linorder \<times> 'b::linorder) list"
  shows "sorted xs \<Longrightarrow> sorted (map fst xs)"
  by (induction xs) (auto simp: less_eq_prod_def)

lemma file_buttons_names:
  assumes "file_buttons listing pfx = Inr buttons"
  shows "set (map fst buttons) = {f \<in> set listing. prefix pfx f} \<and> sorted (map fst buttons) \<and>
         (\<forall>(f, l) \<in> set buttons. l = displayname pfx f) \<and> buttons \<noteq> []"
proof -
  from assms have b: "buttons = sort (matching_files listing pfx)" and ne: "matching_files listing pfx \<noteq> []"
    by (auto simp: file_buttons_def Let_def split: if_splits)
  have "set buttons = set (matching_files listing pfx)" by (simp add: b)
  then have s: "set buttons = (\<lambda>f. (f, displayname pfx f)) ` {f \<in> set listing. prefix pfx f}"
    by (auto simp: matching_files_def)
  have "sorted buttons" by (simp add: b)
  then have "sorted (map fst buttons)" by (rule sorted_map_fst)
  moreover have "buttons \<noteq> []" using ne b by (metis set_empty set_sort)
  moreover have "set (map fst buttons) = {f \<in> set listing. prefix pfx f}"
    using s by (auto simp: image_iff) 
  moreover have "\<forall>(f, l) \<in> set buttons. l = displayname pfx f" using s by auto
  ultimately show ?thesis by blast
qed

lemma file_buttons_none:
  "(\<forall>f \<in> set listing. \<not> prefix pfx f) \<longleftrightarrow>
     file_buttons listing pfx = Inl (KeyStoreError ''\<newline>\<newline>No matching files found'')"
  by (auto simp: file_buttons_def matching_files_def Let_def filter_empty_conv)

text \<open>
  Claim C5 says that the label of a listed file is what follows the prefix in its name,
  less one separator. The code removes every occurrence of the prefix from the name, not
  only the leading one: for the record that the user named \<open>reckless\<close> in the internal
  flash, the file is \<open>reckless.reckless\<close>, what follows the prefix less the separator
  is \<open>reckless\<close>, and the label shown is empty.
\<close>

theorem select_file_label_loses_repeated_prefix:
  "file_buttons [''reckless.reckless''] ''reckless'' = Inr [(''reckless.reckless'', '''')] \<and>
   drop 1 (drop (length ''reckless'') ''reckless.reckless'') = ''reckless''"
  by (simp add: model_defs)

text \<open>
  Claim C6 says that \<^verbatim>\<open>fileprefix\<close> depends on the value of the path only, and gives
  \<open>reckless\<close> for every path equal to the flash path. The code tests
  \<^verbatim>\<open>path is self.flashpath\<close>: for the flash path object itself the prefix is
  \<open>reckless\<close>, for another string object with the same value it is the prefix of the
  SD card.
\<close>

theorem fileprefix_depends_on_object_identity:
  "val \<lparr>ident = 7, val = ''/flash''\<rparr> = val (flashpath example_keystore) \<and>
   fileprefix example_crypto example_keystore (flashpath example_keystore) = ''reckless'' \<and>
   fileprefix example_crypto example_keystore \<lparr>ident = 7, val = ''/flash''\<rparr>
     = ''specterdiy73646964''"
  by (simp add: model_defs example_defs)

subsection \<open>The storage menu\<close>

text \<open>
  Claim C9 says that after an empty name the workflow reports the error, creates no
  file and goes back to the storage menu, which only the Back button leaves. The code
  reports the error and creates no file, and then \<^verbatim>\<open>storage_menu\<close> returns: with an
  empty name in the first round and the recovery phrase asked for in the second, the
  method has returned after the alert, the second round never starts, and Back was
  never pressed.
\<close>

theorem storage_menu_returns_after_empty_name:
  "storage_menu example_crypto example_keystore
     [\<lparr>menuitem = 0, name_input = Some '''', answers = example_user\<rparr>,
      \<lparr>menuitem = 3, name_input = None, answers = example_user\<rparr>]
   = (Returned,
      example_keystore
        \<lparr>display :=
           [StorageMenu,
            InputScreen ''Enter a name for this seed''
              (''Naming your seeds allows you to store multiple.\<newline>'' @ ''Give each seed a unique name!'')
              '''',
            Alert ''Error!''
              (''Please provide a valid name!\<newline>\<newline>'' @ ''Your file has NOT been saved.'')]\<rparr>)"
  by (simp add: model_defs example_defs)

subsection \<open>Saving and loading\<close>

text \<open>Facts about the helper methods, and what each operation comes to once the root is known.\<close>

lemma file_exists_mount [simp]:
  "file_exists (mount_sdcard p) f = file_exists p f"
  "file_exists (unmount_sdcard p) f = file_exists p f"
  by (simp_all add: file_exists_def mount_sdcard_def unmount_sdcard_def)

lemma load_aead_fs: "fs p = fs q \<Longrightarrow> load_aead c p f k = load_aead c q f k"
  by (simp add: load_aead_def)

lemma load_aead_mount [simp]:
  "load_aead c (mount_sdcard p) f k = load_aead c p f k"
  "load_aead c (unmount_sdcard p) f k = load_aead c p f k"
  by (simp_all add: load_aead_def mount_sdcard_def unmount_sdcard_def)

lemma upd_mounted [simp]:
  "file_exists (p\<lparr>sd_mounted := b\<rparr>) f = file_exists p f"
  "load_aead c (p\<lparr>sd_mounted := b\<rparr>) f k = load_aead c p f k"
  by (simp_all add: file_exists_def load_aead_def)

lemma fs_mount [simp]:
  "fs (mount_sdcard p) = fs p" "fs (unmount_sdcard p) = fs p"
  by (simp_all add: mount_sdcard_def unmount_sdcard_def)

lemma get_keypath_fst [simp]: "fst (get_keypath ks t e n u) = media_choice u"
  by (simp add: get_keypath_def Let_def)

lemma get_keypath_frame [simp]:
  "is_locked (snd (get_keypath ks t e n u)) = is_locked ks"
  "mnemonic (snd (get_keypath ks t e n u)) = mnemonic ks"
  "passphrase (snd (get_keypath ks t e n u)) = passphrase ks"
  "secret (snd (get_keypath ks t e n u)) = secret ks"
  "enc_secret (snd (get_keypath ks t e n u)) = enc_secret ks"
  "flashpath (snd (get_keypath ks t e n u)) = flashpath ks"
  "sdpath (snd (get_keypath ks t e n u)) = sdpath ks"
  by (simp_all add: get_keypath_def Let_def show_screen_def)

lemma get_keypath_plat [simp]:
  "fs (plat (snd (get_keypath ks t e n u))) = fs (plat ks)"
  "sd_present (plat (snd (get_keypath ks t e n u))) = sd_present (plat ks)"
  "rng (plat (snd (get_keypath ks t e n u))) = rng (plat ks)"
  "io_fault (plat (snd (get_keypath ks t e n u))) = io_fault (plat ks)"
  by (simp_all add: get_keypath_def Let_def show_screen_def is_sd_present_def mount_sdcard_def unmount_sdcard_def)

lemma fileprefix_cong:
  "secret ks' = secret ks \<Longrightarrow> flashpath ks' = flashpath ks \<Longrightarrow> fileprefix c ks' p = fileprefix c ks p"
  by (simp add: fileprefix_def)

lemma select_file_frame:
  assumes "select_file ks p pfx u = (r, ks')"
  shows "plat ks' = plat ks \<and> is_locked ks' = is_locked ks \<and> mnemonic ks' = mnemonic ks
     \<and> passphrase ks' = passphrase ks \<and> secret ks' = secret ks \<and> enc_secret ks' = enc_secret ks
     \<and> flashpath ks' = flashpath ks \<and> sdpath ks' = sdpath ks \<and> (\<forall>x. r = Inr x \<longrightarrow> x = file_choice u)"
  using assms by (auto simp: select_file_def show_screen_def split: sum.splits)

lemma load_explicit:
  assumes "load_mnemonic c ks (Some p) (Some f) u = (Inr r, ks')"
  shows "r = PyTrue \<and> \<not> is_locked ks \<and> (val p = sdpath ks \<longrightarrow> sd_present (plat ks)) \<and>
         (\<exists>adata data. load_aead c (plat ks) (val p @ ''/'' @ f) (enc_secret ks) = Inr (adata, data) \<and>
            ks' = set_mnemonic (ks\<lparr>plat := (if val p = sdpath ks then (plat ks)\<lparr>sd_mounted := False\<rparr> else plat ks)\<rparr>) data '''')"
  using assms
  by (auto simp: load_mnemonic_def mount_sdcard_def unmount_sdcard_def is_sd_present_def Let_def split: if_splits sum.splits prod.splits)

lemma load_explicit_ok:
  assumes "\<not> is_locked ks" "val p = sdpath ks \<longrightarrow> sd_present (plat ks)"
    "load_aead c (plat ks) (val p @ ''/'' @ f) (enc_secret ks) = Inr (adata, data)"
  shows "load_mnemonic c ks (Some p) (Some f) u = (Inr PyTrue, set_mnemonic (ks\<lparr>plat := (if val p = sdpath ks then (plat ks)\<lparr>sd_mounted := False\<rparr> else plat ks)\<rparr>) data '''')"
  using assms
  by (auto simp: load_mnemonic_def mount_sdcard_def unmount_sdcard_def is_sd_present_def Let_def file_exists_def load_aead_def split: if_splits sum.splits prod.splits option.splits node.splits)

lemma load_success:
  assumes "load_mnemonic c ks path file u = (Inr PyTrue, ks')"
  shows "\<exists>p f adata data ksm.
           (path = Some p \<or> path = None \<and> media_choice u = Some p) \<and>
           (file = Some f \<or> file = None \<and> file_choice u = Some f) \<and>
           load_aead c (plat ks) (val p @ ''/'' @ f) (enc_secret ks) = Inr (adata, data) \<and>
           ks' = set_mnemonic ksm data ''''"
proof -
  from assms have unl: "\<not> is_locked ks"
    by (auto simp: load_mnemonic_def split: if_splits)
  obtain po ks1 where r1: "(case path of None \<Rightarrow> get_keypath ks ''From where to load?'' True (Some ''Select media'') u
              | Some p \<Rightarrow> (Some p, ks)) = (po, ks1)" by force
  have po: "po = (case path of None \<Rightarrow> media_choice u | Some p \<Rightarrow> Some p)"
    and k1: "fs (plat ks1) = fs (plat ks)" "enc_secret ks1 = enc_secret ks"
    using r1 by (auto split: option.splits simp: prod_eq_iff)
  from assms unl r1 obtain p where p: "po = Some p"
    by (cases po) (auto simp: load_mnemonic_def)
  define ks2 where "ks2 = (if val p = sdpath ks1 then ks1\<lparr>plat := mount_sdcard (plat ks1)\<rparr> else ks1)"
  have k2: "fs (plat ks2) = fs (plat ks)" "enc_secret ks2 = enc_secret ks"
    by (simp_all add: ks2_def k1)
  obtain fo ks3 where r3: "(case file of None \<Rightarrow> select_file ks2 p (fileprefix c ks2 p) u
                       | Some f \<Rightarrow> (Inr (Some f), ks2)) = (fo, ks3)" by force
  have k3: "plat ks3 = plat ks2" "enc_secret ks3 = enc_secret ks2"
    and fo: "\<forall>x. fo = Inr x \<longrightarrow> x = (case file of None \<Rightarrow> file_choice u | Some f \<Rightarrow> Some f)"
    using r3 by (auto split: option.splits dest: select_file_frame)
  from assms unl r1 p r3 obtain f where f: "fo = Inr (Some f)"
    by (auto simp: load_mnemonic_def Let_def ks2_def [symmetric] split: if_splits sum.splits option.splits)
  from assms unl r1 p r3 f obtain adata data ksm where
    la: "load_aead c (plat ks3) (val p @ ''/'' @ f) (enc_secret ks3) = Inr (adata, data)"
    and ks': "ks' = set_mnemonic ksm data ''''"
    by (auto simp: load_mnemonic_def Let_def ks2_def [symmetric] split: if_splits sum.splits)
  have "load_aead c (plat ks) (val p @ ''/'' @ f) (enc_secret ks) = Inr (adata, data)"
    using la load_aead_fs [of "plat ks3" "plat ks"] by (simp add: k3 k2)
  moreover have "path = Some p \<or> path = None \<and> media_choice u = Some p"
    using po p by (cases path) auto
  moreover have "file = Some f \<or> file = None \<and> file_choice u = Some f"
    using fo f by (cases "file") auto
  ultimately show ?thesis using ks' by blast
qed

lemma save_aead_Inr:
  "save_aead c p t m k = Inr p4 \<Longrightarrow>
     fs p4 = AList.update t (File (aead_encrypt c k (rng p) [] m)) (fs p) \<and>
     sd_present p4 = sd_present p \<and> sd_mounted p4 = sd_mounted p \<and>
     io_fault p4 = io_fault p \<and> rng p4 = Suc (rng p)"
  by (auto simp: save_aead_def split: if_splits)

lemma save_success:
  assumes "save_mnemonic c ks filename path u = (Inr PyTrue, ks')"
  shows "\<exists>p m adata data ksm.
           (path = Some p \<or> path = None \<and> media_choice u = Some p) \<and>
           \<not> is_locked ks \<and> mnemonic ks = Some m \<and>
           (val p = sdpath ks \<longrightarrow> sd_present (plat ks)) \<and>
           fs (plat ks') =
             AList.update (val p @ ''/'' @ fileprefix c ks p @ ''.'' @ filename)
               (File (aead_encrypt c (enc_secret ks) (rng (plat ks)) [] m)) (fs (plat ks)) \<and>
           load_aead c (plat ks') (val p @ ''/'' @ fileprefix c ks p @ ''.'' @ filename)
             (enc_secret ks) = Inr (adata, data) \<and>
           ks' = set_mnemonic ksm data '''' \<and>
           is_locked ks' = is_locked ks \<and> secret ks' = secret ks \<and>
           enc_secret ks' = enc_secret ks \<and> flashpath ks' = flashpath ks \<and>
           sdpath ks' = sdpath ks \<and> sd_present (plat ks') = sd_present (plat ks) \<and>
           (val p = sdpath ks \<longrightarrow> \<not> sd_mounted (plat ks'))"
proof -
  from assms have unl: "\<not> is_locked ks"
    by (auto simp: save_mnemonic_def split: if_splits)
  from assms unl obtain m where m: "mnemonic ks = Some m"
    by (cases "mnemonic ks") (auto simp: save_mnemonic_def)
  obtain po ks1 where r1: "(case path of
                None \<Rightarrow> get_keypath ks ''Where to save?'' False (Some ''Select media'') u
              | Some p \<Rightarrow> (Some p, ks)) = (po, ks1)" by force
  have po: "po = (case path of None \<Rightarrow> media_choice u | Some p \<Rightarrow> Some p)"
    and k1: "fs (plat ks1) = fs (plat ks)" "enc_secret ks1 = enc_secret ks"
      "secret ks1 = secret ks" "flashpath ks1 = flashpath ks" "sdpath ks1 = sdpath ks"
      "is_locked ks1 = is_locked ks" "mnemonic ks1 = mnemonic ks"
      "sd_present (plat ks1) = sd_present (plat ks)" "rng (plat ks1) = rng (plat ks)"
    using r1 by (auto split: option.splits simp: prod_eq_iff)
  from assms unl m r1 obtain p where p: "po = Some p"
    by (cases po) (auto simp: save_mnemonic_def)
  from assms unl m r1 p have sdok: "val p = sdpath ks \<longrightarrow> sd_present (plat ks)"
    by (auto simp: save_mnemonic_def is_sd_present_def k1 split: if_splits)
  define ks2 where "ks2 = (if val p = sdpath ks1 then ks1\<lparr>plat := mount_sdcard (plat ks1)\<rparr> else ks1)"
  define target where "target = val p @ ''/'' @ fileprefix c ks2 p @ ''.'' @ filename"
  define ks3 where "ks3 = (if file_exists (plat ks2) target
                         then show_screen ks2
                                (Prompt (''\<newline>\<newline>File already exists: '' @ filename @ ''\<newline>'')
                                        ''Would you like to overwrite this file?'')
                         else ks2)"
  have k3: "fs (plat ks3) = fs (plat ks)" "enc_secret ks3 = enc_secret ks"
      "secret ks3 = secret ks" "flashpath ks3 = flashpath ks" "sdpath ks3 = sdpath ks"
      "is_locked ks3 = is_locked ks" "mnemonic ks3 = mnemonic ks"
      "sd_present (plat ks3) = sd_present (plat ks)" "rng (plat ks3) = rng (plat ks)"
    by (simp_all add: ks3_def ks2_def k1 show_screen_def mount_sdcard_def)
  have tg: "target = val p @ ''/'' @ fileprefix c ks p @ ''.'' @ filename"
    by (simp add: target_def fileprefix_def ks2_def k1)
  have eq: "save_mnemonic c ks filename path u =
      (if file_exists (plat ks2) target \<and> \<not> overwrite_choice u then (Inr PyNone, ks3)
       else case save_aead c (plat ks3) target (the (mnemonic ks3)) (enc_secret ks3) of
              Inl e \<Rightarrow> (Inl e, ks3)
            | Inr p4 \<Rightarrow>
                (case load_mnemonic c
                        (if val p = sdpath ks3 then ks3\<lparr>plat := unmount_sdcard p4\<rparr>
                         else ks3\<lparr>plat := p4\<rparr>)
                        (Some p) (Some (fileprefix c ks3 p @ ''.'' @ filename)) u of
                   (Inl e, ks6) \<Rightarrow> (Inl e, ks6)
                 | (Inr r, ks6) \<Rightarrow> (Inr PyTrue, ks6)))"
    unfolding save_mnemonic_def Let_def ks3_def target_def ks2_def
    using unl m r1 p sdok
    by (simp add: is_sd_present_def k1 fileprefix_def show_screen_def cong: sum.case_cong)
  from assms obtain p4 where
    sv: "save_aead c (plat ks3) target (the (mnemonic ks3)) (enc_secret ks3) = Inr p4"
    unfolding eq by (cases "save_aead c (plat ks3) target (the (mnemonic ks3)) (enc_secret ks3)")
      (auto split: if_splits)
  define ks5 where "ks5 = (if val p = sdpath ks3 then ks3\<lparr>plat := unmount_sdcard p4\<rparr>
                           else ks3\<lparr>plat := p4\<rparr>)"
  note p4 = save_aead_Inr [OF sv]
  have k5: "fs (plat ks5) = fs p4" "enc_secret ks5 = enc_secret ks"
      "secret ks5 = secret ks" "flashpath ks5 = flashpath ks" "sdpath ks5 = sdpath ks"
      "is_locked ks5 = is_locked ks" "sd_present (plat ks5) = sd_present (plat ks)"
    by (simp_all add: ks5_def k3 p4 unmount_sdcard_def)
  have fp5: "fileprefix c ks5 p = fileprefix c ks p" "fileprefix c ks3 p = fileprefix c ks p"
    by (simp_all add: fileprefix_def k5 k3)
  have eq2: "save_mnemonic c ks filename path u =
      (if file_exists (plat ks2) target \<and> \<not> overwrite_choice u then (Inr PyNone, ks3)
       else case load_mnemonic c ks5 (Some p) (Some (fileprefix c ks p @ ''.'' @ filename)) u of
              (Inl e, ks6) \<Rightarrow> (Inl e, ks6)
            | (Inr r, ks6) \<Rightarrow> (Inr PyTrue, ks6))"
    by (simp add: eq sv ks5_def fp5)
  obtain res ks6 where
    l: "load_mnemonic c ks5 (Some p) (Some (fileprefix c ks p @ ''.'' @ filename)) u = (res, ks6)"
    by force
  from assms eq2 l obtain r where "res = Inr r" "ks6 = ks'"
    by (cases res) (auto split: if_splits)
  with l have
    ld: "load_mnemonic c ks5 (Some p) (Some (fileprefix c ks5 p @ ''.'' @ filename)) u = (Inr r, ks')"
    by (simp add: fp5)
  from load_explicit [OF ld] obtain adata data where
    la: "load_aead c (plat ks5) (val p @ ''/'' @ fileprefix c ks5 p @ ''.'' @ filename) (enc_secret ks5) = Inr (adata, data)"
    and ks': "ks' = set_mnemonic (ks5\<lparr>plat := (if val p = sdpath ks5 then (plat ks5)\<lparr>sd_mounted := False\<rparr> else plat ks5)\<rparr>) data ''''"
    by blast
  have f': "fs (plat ks') = fs p4" and s': "sd_present (plat ks') = sd_present (plat ks)"
    and e': "enc_secret ks' = enc_secret ks" "secret ks' = secret ks" "flashpath ks' = flashpath ks"
      "sdpath ks' = sdpath ks" "is_locked ks' = is_locked ks"
    by (simp_all add: ks' set_mnemonic_def k5)
  have um: "val p = sdpath ks \<longrightarrow> \<not> sd_mounted (plat ks')"
    by (simp add: ks' set_mnemonic_def k5)
  have "load_aead c (plat ks') (val p @ ''/'' @ fileprefix c ks p @ ''.'' @ filename) (enc_secret ks) = Inr (adata, data)"
    using la load_aead_fs [of "plat ks'" "plat ks5"] by (simp add: f' k5 fp5)
  moreover have "fs (plat ks') = AList.update (val p @ ''/'' @ fileprefix c ks p @ ''.'' @ filename)
               (File (aead_encrypt c (enc_secret ks) (rng (plat ks)) [] m)) (fs (plat ks))"
    using tg by (simp add: f' p4 k3 m)
  moreover have "path = Some p \<or> path = None \<and> media_choice u = Some p"
    using po p by (cases path) auto
  ultimately show ?thesis using ks' unl m sdok e' s' um by blast
qed

text \<open>On the path to \<^verbatim>\<open>return True\<close> the card is unmounted.\<close>

lemma load_mnemonic_success_unmounts:
  assumes "load_mnemonic c ks (Some p) (Some f) u = (Inr r, ks')" and "val p = sdpath ks"
  shows "\<not> sd_mounted (plat ks')"
  using load_explicit [OF assms(1)] assms(2) by (auto simp: set_mnemonic_def)

lemma save_mnemonic_success_unmounts:
  assumes "save_mnemonic c ks filename (Some p) u = (Inr PyTrue, ks')" and "val p = sdpath ks"
  shows "\<not> sd_mounted (plat ks')"
  using save_success [OF assms(1)] assms(2) by auto

lemma load_explicit_fs:
  "fs (plat (snd (load_mnemonic c ks (Some p) (Some f) u))) = fs (plat ks)"
  by (simp add: load_mnemonic_def Let_def set_mnemonic_def split: sum.splits prod.splits)

lemma snd_readback:
  "snd (case x of (Inl e, k) \<Rightarrow> (Inl e, k) | (Inr r, k) \<Rightarrow> (Inr PyTrue, k)) = snd x"
  by (auto split: prod.splits sum.splits)

lemma save_mnemonic_unfold:
  assumes unl: "\<not> is_locked ks" and m: "mnemonic ks = Some m"
    and path: "path = Some p \<or> path = None \<and> media_choice u = Some p"
    and sdok: "val p = sdpath ks \<longrightarrow> sd_present (plat ks)"
  shows "\<exists>ks3.
     fs (plat ks3) = fs (plat ks) \<and> rng (plat ks3) = rng (plat ks) \<and>
     sd_present (plat ks3) = sd_present (plat ks) \<and>
     (val p = sdpath ks \<longrightarrow> sd_mounted (plat ks3)) \<and>
     is_locked ks3 = is_locked ks \<and> mnemonic ks3 = mnemonic ks \<and>
     passphrase ks3 = passphrase ks \<and> secret ks3 = secret ks \<and>
     enc_secret ks3 = enc_secret ks \<and> flashpath ks3 = flashpath ks \<and> sdpath ks3 = sdpath ks \<and>
     save_mnemonic c ks filename path u =
      (if file_exists (plat ks) (val p @ ''/'' @ fileprefix c ks p @ ''.'' @ filename)
          \<and> \<not> overwrite_choice u
       then (Inr PyNone, ks3)
       else case save_aead c (plat ks3) (val p @ ''/'' @ fileprefix c ks p @ ''.'' @ filename) m
                   (enc_secret ks) of
              Inl e \<Rightarrow> (Inl e, ks3)
            | Inr p4 \<Rightarrow>
                (case load_mnemonic c
                        (ks3\<lparr>plat := (if val p = sdpath ks then unmount_sdcard p4 else p4)\<rparr>)
                        (Some p) (Some (fileprefix c ks p @ ''.'' @ filename)) u of
                   (Inl e, ks6) \<Rightarrow> (Inl e, ks6)
                 | (Inr r, ks6) \<Rightarrow> (Inr PyTrue, ks6)))"
proof -
  define ks1 where "ks1 = (case path of
      None \<Rightarrow> snd (get_keypath ks ''Where to save?'' False (Some ''Select media'') u)
    | Some p \<Rightarrow> ks)"
  have r1: "(case path of
                None \<Rightarrow> get_keypath ks ''Where to save?'' False (Some ''Select media'') u
              | Some p \<Rightarrow> (Some p, ks)) = (Some p, ks1)"
    using path by (auto simp: ks1_def prod_eq_iff)
  have k1: "fs (plat ks1) = fs (plat ks)" "enc_secret ks1 = enc_secret ks"
      "secret ks1 = secret ks" "flashpath ks1 = flashpath ks" "sdpath ks1 = sdpath ks"
      "is_locked ks1 = is_locked ks" "mnemonic ks1 = mnemonic ks" "passphrase ks1 = passphrase ks"
      "sd_present (plat ks1) = sd_present (plat ks)" "rng (plat ks1) = rng (plat ks)"
    by (simp_all add: ks1_def split: option.splits)
  define ks2 where "ks2 = (if val p = sdpath ks1 then ks1\<lparr>plat := mount_sdcard (plat ks1)\<rparr> else ks1)"
  define target where "target = val p @ ''/'' @ fileprefix c ks2 p @ ''.'' @ filename"
  define ks3 where "ks3 = (if file_exists (plat ks2) target
                         then show_screen ks2
                                (Prompt (''\<newline>\<newline>File already exists: '' @ filename @ ''\<newline>'')
                                        ''Would you like to overwrite this file?'')
                         else ks2)"
  have k3: "fs (plat ks3) = fs (plat ks)" "enc_secret ks3 = enc_secret ks"
      "secret ks3 = secret ks" "flashpath ks3 = flashpath ks" "sdpath ks3 = sdpath ks"
      "is_locked ks3 = is_locked ks" "mnemonic ks3 = mnemonic ks" "passphrase ks3 = passphrase ks"
      "sd_present (plat ks3) = sd_present (plat ks)" "rng (plat ks3) = rng (plat ks)"
      "val p = sdpath ks \<longrightarrow> sd_mounted (plat ks3)"
    by (simp_all add: ks3_def ks2_def k1 show_screen_def mount_sdcard_def)
  have tg: "target = val p @ ''/'' @ fileprefix c ks p @ ''.'' @ filename"
    by (simp add: target_def fileprefix_def ks2_def k1)
  have fe: "file_exists (plat ks2) t = file_exists (plat ks) t" for t
    by (simp add: file_exists_def ks2_def k1)
  have eq: "save_mnemonic c ks filename path u =
      (if file_exists (plat ks2) target \<and> \<not> overwrite_choice u then (Inr PyNone, ks3)
       else case save_aead c (plat ks3) target (the (mnemonic ks3)) (enc_secret ks3) of
              Inl e \<Rightarrow> (Inl e, ks3)
            | Inr p4 \<Rightarrow>
                (case load_mnemonic c
                        (if val p = sdpath ks3 then ks3\<lparr>plat := unmount_sdcard p4\<rparr>
                         else ks3\<lparr>plat := p4\<rparr>)
                        (Some p) (Some (fileprefix c ks3 p @ ''.'' @ filename)) u of
                   (Inl e, ks6) \<Rightarrow> (Inl e, ks6)
                 | (Inr r, ks6) \<Rightarrow> (Inr PyTrue, ks6)))"
    unfolding save_mnemonic_def Let_def ks3_def target_def ks2_def
    using unl m r1 sdok
    by (simp add: is_sd_present_def k1 fileprefix_def show_screen_def cong: sum.case_cong)
  have fp3: "fileprefix c ks3 p = fileprefix c ks p"
    by (simp add: fileprefix_def k3)
  have st: "(if val p = sdpath ks then ks3\<lparr>plat := unmount_sdcard p4\<rparr> else ks3\<lparr>plat := p4\<rparr>)
      = ks3\<lparr>plat := (if val p = sdpath ks then unmount_sdcard p4 else p4)\<rparr>" for p4
    by simp
  have "save_mnemonic c ks filename path u =
      (if file_exists (plat ks) (val p @ ''/'' @ fileprefix c ks p @ ''.'' @ filename)
          \<and> \<not> overwrite_choice u
       then (Inr PyNone, ks3)
       else case save_aead c (plat ks3) (val p @ ''/'' @ fileprefix c ks p @ ''.'' @ filename) m
                   (enc_secret ks) of
              Inl e \<Rightarrow> (Inl e, ks3)
            | Inr p4 \<Rightarrow>
                (case load_mnemonic c
                        (ks3\<lparr>plat := (if val p = sdpath ks then unmount_sdcard p4 else p4)\<rparr>)
                        (Some p) (Some (fileprefix c ks p @ ''.'' @ filename)) u of
                   (Inl e, ks6) \<Rightarrow> (Inl e, ks6)
                 | (Inr r, ks6) \<Rightarrow> (Inr PyTrue, ks6)))"
    by (simp only: eq k3 m option.sel fp3 fe tg st)
  with k3 show ?thesis by blast
qed

lemma load_explicit_fail:
  assumes "\<not> is_locked ks" "val p = sdpath ks \<longrightarrow> sd_present (plat ks)"
    "file_exists (plat ks) (val p @ ''/'' @ f)"
    "load_aead c (plat ks) (val p @ ''/'' @ f) (enc_secret ks) = Inl e"
  shows "fst (load_mnemonic c ks (Some p) (Some f) u) = Inl e"
  using assms
  by (auto simp: load_mnemonic_def mount_sdcard_def is_sd_present_def Let_def)

text \<open>
  Claim C7. When the target record file already exists and the user declines the overwrite
  prompt, \<^verbatim>\<open>save_mnemonic\<close> returns \<^verbatim>\<open>None\<close> (cancelled) and the file system is
  unchanged; when the user confirms, the target holds the new encrypted blob afterwards.
  The root is the one passed, or the one chosen in the media menu.
\<close>

theorem save_mnemonic_overwrite_guard:
  assumes unl: "\<not> is_locked ks" and m: "mnemonic ks = Some m"
    and path: "path = Some p \<or> path = None \<and> media_choice u = Some p"
    and sdok: "val p = sdpath ks \<longrightarrow> sd_present (plat ks)"
    and old: "map_of (fs (plat ks)) (val p @ ''/'' @ fileprefix c ks p @ ''.'' @ filename) = Some (File old)"
  shows "(\<not> overwrite_choice u \<longrightarrow>
            fst (save_mnemonic c ks filename path u) = Inr PyNone \<and>
            fs (plat (snd (save_mnemonic c ks filename path u))) = fs (plat ks)) \<and>
         (overwrite_choice u \<longrightarrow>
            map_of (fs (plat (snd (save_mnemonic c ks filename path u))))
              (val p @ ''/'' @ fileprefix c ks p @ ''.'' @ filename)
            = Some (File (aead_encrypt c (enc_secret ks) (rng (plat ks)) [] m)))"
proof -
  let ?t = "val p @ ''/'' @ fileprefix c ks p @ ''.'' @ filename"
  from save_mnemonic_unfold [OF unl m path sdok, of c filename] obtain ks3 where
    k3: "fs (plat ks3) = fs (plat ks)" "rng (plat ks3) = rng (plat ks)"
    and eq: "save_mnemonic c ks filename path u =
      (if file_exists (plat ks) ?t \<and> \<not> overwrite_choice u
       then (Inr PyNone, ks3)
       else case save_aead c (plat ks3) ?t m (enc_secret ks) of
              Inl e \<Rightarrow> (Inl e, ks3)
            | Inr p4 \<Rightarrow>
                (case load_mnemonic c
                        (ks3\<lparr>plat := (if val p = sdpath ks then unmount_sdcard p4 else p4)\<rparr>)
                        (Some p) (Some (fileprefix c ks p @ ''.'' @ filename)) u of
                   (Inl e, ks6) \<Rightarrow> (Inl e, ks6)
                 | (Inr r, ks6) \<Rightarrow> (Inr PyTrue, ks6)))"
    by blast
  have ex: "file_exists (plat ks) ?t" using old by (simp add: file_exists_def)
  have declined: "fst (save_mnemonic c ks filename path u) = Inr PyNone \<and>
            fs (plat (snd (save_mnemonic c ks filename path u))) = fs (plat ks)"
    if "\<not> overwrite_choice u"
    using that ex by (simp add: eq k3)
  have confirmed: "map_of (fs (plat (snd (save_mnemonic c ks filename path u)))) ?t
            = Some (File (aead_encrypt c (enc_secret ks) (rng (plat ks)) [] m))"
    if ow: "overwrite_choice u"
  proof -
    define p4 where "p4 = (plat ks3)\<lparr>fs := AList.update ?t (File (aead_encrypt c (enc_secret ks) (rng (plat ks3)) [] m)) (fs (plat ks3)),
                  rng := Suc (rng (plat ks3))\<rparr>"
    have sv: "save_aead c (plat ks3) ?t m (enc_secret ks) = Inr p4"
      using old by (simp add: save_aead_def k3 p4_def)
    define ks5 where "ks5 = ks3\<lparr>plat := (if val p = sdpath ks then unmount_sdcard p4 else p4)\<rparr>"
    have f5: "fs (plat ks5) = fs p4" by (simp add: ks5_def)
    have "save_mnemonic c ks filename path u =
          (case load_mnemonic c ks5 (Some p) (Some (fileprefix c ks p @ ''.'' @ filename)) u of
             (Inl e, ks6) \<Rightarrow> (Inl e, ks6)
           | (Inr r, ks6) \<Rightarrow> (Inr PyTrue, ks6))"
      using ow by (simp only: eq sv ks5_def simp_thms if_False sum.case)
    then have "fs (plat (snd (save_mnemonic c ks filename path u))) =
          fs (plat (snd (load_mnemonic c ks5 (Some p) (Some (fileprefix c ks p @ ''.'' @ filename)) u)))"
      by (simp add: snd_readback)
    also have "\<dots> = fs p4" by (simp add: load_explicit_fs f5)
    finally show ?thesis by (simp add: p4_def k3 update_conv')
  qed
  from declined confirmed show ?thesis by blast
qed

text \<open>The example device: the record on the card, the prompt declined and then confirmed.\<close>

theorem save_mnemonic_overwrite_guard_witness:
  "\<not> is_locked example_keystore \<and>
   mnemonic example_keystore = Some ''abandon ability'' \<and>
   sd_present (plat example_keystore) \<and>
   map_of (fs (plat example_keystore)) ''/sd/specterdiy73646964.main'' = Some (File ''Kzoo zone'') \<and>
   \<not> overwrite_choice example_user \<and>
   save_mnemonic example_crypto example_keystore ''main'' (Some example_sd) example_user
     = (Inr PyNone,
        example_keystore
          \<lparr>plat := example_platform\<lparr>sd_mounted := True\<rparr>,
           display := [Prompt (''\<newline>\<newline>File already exists: '' @ ''main'' @ ''\<newline>'')
                          ''Would you like to overwrite this file?'']\<rparr>) \<and>
   overwrite_choice (example_user\<lparr>overwrite_choice := True\<rparr>) \<and>
   map_of (fs (plat (snd (save_mnemonic example_crypto example_keystore ''main'' (Some example_sd)
                            (example_user\<lparr>overwrite_choice := True\<rparr>)))))
     ''/sd/specterdiy73646964.main'' = Some (File ''Kabandon ability'')"
  using save_mnemonic_overwrite_guard
          [where c = example_crypto and ks = example_keystore and filename = "''main''"
             and path = "Some example_sd" and p = example_sd and u = example_user
             and m = "''abandon ability''" and old = "''Kzoo zone''"]
        save_mnemonic_overwrite_guard
          [where c = example_crypto and ks = example_keystore and filename = "''main''"
             and path = "Some example_sd" and p = example_sd
             and u = "example_user\<lparr>overwrite_choice := True\<rparr>"
             and m = "''abandon ability''" and old = "''Kzoo zone''"]
  by (simp add: model_defs example_defs)

text \<open>
  Claim C3. \<^verbatim>\<open>save_mnemonic\<close> returns \<^verbatim>\<open>True\<close> only after the file it wrote has been
  read back and decrypted: on success the written file decrypts under the key and its
  content is the mnemonic of the session, which the read-back has set. When the blob that
  was written does not authenticate on the read-back, the save raises the error of the
  read-back instead of returning.
\<close>

theorem save_mnemonic_success_only_after_readback:
  "(save_mnemonic c ks filename path u = (Inr PyTrue, ks') \<longrightarrow>
      (\<exists>p adata data.
          (path = Some p \<or> path = None \<and> media_choice u = Some p) \<and>
          load_aead c (plat ks') (val p @ ''/'' @ fileprefix c ks p @ ''.'' @ filename)
            (enc_secret ks) = Inr (adata, data) \<and>
          mnemonic ks' = Some data)) \<and>
   (\<not> is_locked ks \<and> mnemonic ks = Some m \<and>
    (path = Some q \<or> path = None \<and> media_choice u = Some q) \<and>
    (val q = sdpath ks \<longrightarrow> sd_present (plat ks)) \<and>
    (file_exists (plat ks) (val q @ ''/'' @ fileprefix c ks q @ ''.'' @ filename)
       \<longrightarrow> overwrite_choice u) \<and>
    map_of (fs (plat ks)) (val q @ ''/'' @ fileprefix c ks q @ ''.'' @ filename) \<noteq> Some Dir \<and>
    aead_decrypt c (enc_secret ks) (aead_encrypt c (enc_secret ks) (rng (plat ks)) [] m) = None
    \<longrightarrow> fst (save_mnemonic c ks filename path u) = Inl AeadError)"
proof (intro conjI impI)
  assume "save_mnemonic c ks filename path u = (Inr PyTrue, ks')"
  from save_success [OF this] obtain p m adata data ksm where
    "path = Some p \<or> path = None \<and> media_choice u = Some p"
    "load_aead c (plat ks') (val p @ ''/'' @ fileprefix c ks p @ ''.'' @ filename)
             (enc_secret ks) = Inr (adata, data)"
    "ks' = set_mnemonic ksm data ''''"
    by blast
  then show "\<exists>p adata data.
          (path = Some p \<or> path = None \<and> media_choice u = Some p) \<and>
          load_aead c (plat ks') (val p @ ''/'' @ fileprefix c ks p @ ''.'' @ filename)
            (enc_secret ks) = Inr (adata, data) \<and>
          mnemonic ks' = Some data"
    by (auto simp: set_mnemonic_def)
next
  let ?t = "val q @ ''/'' @ fileprefix c ks q @ ''.'' @ filename"
  assume h: "\<not> is_locked ks \<and> mnemonic ks = Some m \<and>
    (path = Some q \<or> path = None \<and> media_choice u = Some q) \<and>
    (val q = sdpath ks \<longrightarrow> sd_present (plat ks)) \<and>
    (file_exists (plat ks) ?t \<longrightarrow> overwrite_choice u) \<and>
    map_of (fs (plat ks)) ?t \<noteq> Some Dir \<and>
    aead_decrypt c (enc_secret ks) (aead_encrypt c (enc_secret ks) (rng (plat ks)) [] m) = None"
  then have unl: "\<not> is_locked ks" and m: "mnemonic ks = Some m"
    and path: "path = Some q \<or> path = None \<and> media_choice u = Some q"
    and sdok: "val q = sdpath ks \<longrightarrow> sd_present (plat ks)"
    and ow: "\<not> (file_exists (plat ks) ?t \<and> \<not> overwrite_choice u)"
    and nd: "map_of (fs (plat ks)) ?t \<noteq> Some Dir"
    and bad: "aead_decrypt c (enc_secret ks) (aead_encrypt c (enc_secret ks) (rng (plat ks)) [] m) = None"
    by blast+
  from save_mnemonic_unfold [OF unl m path sdok, of c filename] obtain ks3 where
    k3: "fs (plat ks3) = fs (plat ks)" "rng (plat ks3) = rng (plat ks)"
        "sd_present (plat ks3) = sd_present (plat ks)" "is_locked ks3 = is_locked ks"
        "enc_secret ks3 = enc_secret ks" "sdpath ks3 = sdpath ks"
    and eq: "save_mnemonic c ks filename path u =
      (if file_exists (plat ks) ?t \<and> \<not> overwrite_choice u
       then (Inr PyNone, ks3)
       else case save_aead c (plat ks3) ?t m (enc_secret ks) of
              Inl e \<Rightarrow> (Inl e, ks3)
            | Inr p4 \<Rightarrow>
                (case load_mnemonic c
                        (ks3\<lparr>plat := (if val q = sdpath ks then unmount_sdcard p4 else p4)\<rparr>)
                        (Some q) (Some (fileprefix c ks q @ ''.'' @ filename)) u of
                   (Inl e, ks6) \<Rightarrow> (Inl e, ks6)
                 | (Inr r, ks6) \<Rightarrow> (Inr PyTrue, ks6)))"
    by blast
  define p4 where "p4 = (plat ks3)\<lparr>fs := AList.update ?t (File (aead_encrypt c (enc_secret ks) (rng (plat ks3)) [] m)) (fs (plat ks3)),
                  rng := Suc (rng (plat ks3))\<rparr>"
  have sv: "save_aead c (plat ks3) ?t m (enc_secret ks) = Inr p4"
    using nd by (simp add: save_aead_def k3 p4_def)
  define ks5 where "ks5 = ks3\<lparr>plat := (if val q = sdpath ks then unmount_sdcard p4 else p4)\<rparr>"
  have eq5: "save_mnemonic c ks filename path u =
          (case load_mnemonic c ks5 (Some q) (Some (fileprefix c ks q @ ''.'' @ filename)) u of
             (Inl e, ks6) \<Rightarrow> (Inl e, ks6)
           | (Inr r, ks6) \<Rightarrow> (Inr PyTrue, ks6))"
    using ow by (simp only: eq sv ks5_def simp_thms if_False sum.case)
  have f5: "map_of (fs (plat ks5)) ?t = Some (File (aead_encrypt c (enc_secret ks) (rng (plat ks)) [] m))"
    by (simp add: ks5_def p4_def k3 update_conv')
  have l5: "load_aead c (plat ks5) ?t (enc_secret ks) = Inl AeadError"
    using f5 bad by (simp add: load_aead_def)
  have s5: "is_locked ks5 = is_locked ks" "enc_secret ks5 = enc_secret ks" "sdpath ks5 = sdpath ks"
    "sd_present (plat ks5) = sd_present (plat ks)"
    by (simp_all add: ks5_def k3 p4_def unmount_sdcard_def)
  have e5: "file_exists (plat ks5) (val q @ ''/'' @ (fileprefix c ks q @ ''.'' @ filename))"
    using f5 by (simp add: file_exists_def)
  have "fst (load_mnemonic c ks5 (Some q) (Some (fileprefix c ks q @ ''.'' @ filename)) u) = Inl AeadError"
    by (rule load_explicit_fail [OF _ _ e5]) (use unl sdok l5 in \<open>simp_all add: s5\<close>)
  then show "fst (save_mnemonic c ks filename path u) = Inl AeadError"
    unfolding eq5 by (auto split: prod.splits sum.splits)
qed

text \<open>The example device: a save that succeeds, and the same save with a decryption that never authenticates.\<close>

theorem save_mnemonic_success_only_after_readback_witness:
  "fst (save_mnemonic example_crypto example_keystore ''new'' (Some example_sd) example_user)
     = Inr PyTrue \<and>
   load_aead example_crypto
     (plat (snd (save_mnemonic example_crypto example_keystore ''new'' (Some example_sd)
                   example_user)))
     ''/sd/specterdiy73646964.new'' ''K'' = Inr ([], ''abandon ability'') \<and>
   aead_decrypt broken_crypto ''K'' (aead_encrypt broken_crypto ''K'' 0 [] ''abandon ability'')
     = None \<and>
   fst (save_mnemonic broken_crypto example_keystore ''new'' (Some example_sd) example_user)
     = Inl AeadError"
  using save_mnemonic_success_only_after_readback
          [where c = example_crypto and ks = example_keystore and filename = "''new''"
             and path = "Some example_sd" and u = example_user and q = example_sd
             and m = "''abandon ability''"
             and ks' = "snd (save_mnemonic example_crypto example_keystore ''new''
                               (Some example_sd) example_user)"]
        save_mnemonic_success_only_after_readback
          [where c = broken_crypto and ks = example_keystore and filename = "''new''"
             and path = "Some example_sd" and u = example_user and q = example_sd
             and m = "''abandon ability''"
             and ks' = "snd (save_mnemonic broken_crypto example_keystore ''new''
                               (Some example_sd) example_user)"]
  by (simp add: model_defs example_defs)

text \<open>
  Claim C4. Provided that the encryption primitive decrypts its own output to the
  plaintext that was encrypted, loading the record after a save that returned \<^verbatim>\<open>True\<close>
  succeeds and yields the mnemonic that was saved, whatever mnemonic and passphrase the
  session holds when the load starts.
\<close>

theorem save_mnemonic_then_load_roundtrip:
  assumes rt: "\<forall>k n pt. map_option snd (aead_decrypt c k (aead_encrypt c k n [] pt)) = Some pt"
    and m: "mnemonic ks = Some P"
    and sv: "save_mnemonic c ks filename path u = (Inr PyTrue, ks')"
    and path: "path = Some p \<or> path = None \<and> media_choice u = Some p"
  shows "\<exists>ks''. load_mnemonic c (ks'\<lparr>mnemonic := m0, passphrase := pw0\<rparr>) (Some p)
                   (Some (fileprefix c ks p @ ''.'' @ filename)) u' = (Inr PyTrue, ks'') \<and>
                 mnemonic ks'' = Some P"
proof -
  let ?t = "val p @ ''/'' @ fileprefix c ks p @ ''.'' @ filename"
  let ?k = "ks'\<lparr>mnemonic := m0, passphrase := pw0\<rparr>"
  let ?blob = "aead_encrypt c (enc_secret ks) (rng (plat ks)) [] P"
  from save_success [OF sv] obtain p' m' where
    p': "path = Some p' \<or> path = None \<and> media_choice u = Some p'"
    and unl: "\<not> is_locked ks" and m': "mnemonic ks = Some m'"
    and sdok': "val p' = sdpath ks \<longrightarrow> sd_present (plat ks)"
    and f'': "fs (plat ks') =
             AList.update (val p' @ ''/'' @ fileprefix c ks p' @ ''.'' @ filename)
               (File (aead_encrypt c (enc_secret ks) (rng (plat ks)) [] m')) (fs (plat ks))"
    and fr: "is_locked ks' = is_locked ks" "enc_secret ks' = enc_secret ks"
      "sdpath ks' = sdpath ks" "sd_present (plat ks') = sd_present (plat ks)"
    by blast
  have pp: "p' = p" using p' path by (cases path) simp_all
  have mm: "m' = P" using m m' by simp
  have sdok: "val p = sdpath ks \<longrightarrow> sd_present (plat ks)" using sdok' pp by simp
  have f': "map_of (fs (plat ks')) ?t = Some (File ?blob)"
    using f'' by (simp add: pp mm update_conv')
  from rt have "map_option snd (aead_decrypt c (enc_secret ks) ?blob) = Some P" by blast
  then obtain a where dec: "aead_decrypt c (enc_secret ks) ?blob = Some (a, P)"
    by (cases "aead_decrypt c (enc_secret ks) ?blob") auto
  have la: "load_aead c (plat ?k) (val p @ ''/'' @ (fileprefix c ks p @ ''.'' @ filename)) (enc_secret ?k) = Inr (a, P)"
    using f' dec by (simp add: load_aead_def fr)
  have "load_mnemonic c ?k (Some p) (Some (fileprefix c ks p @ ''.'' @ filename)) u'
        = (Inr PyTrue, set_mnemonic (?k\<lparr>plat := (if val p = sdpath ?k then (plat ?k)\<lparr>sd_mounted := False\<rparr> else plat ?k)\<rparr>) P '''')"
    by (rule load_explicit_ok [OF _ _ la]) (use fr unl sdok in simp_all)
  then show ?thesis by (simp add: set_mnemonic_def)
qed

text \<open>The example device: the toy encryption decrypts its own output, and a new record on the card loads back.\<close>

theorem save_mnemonic_then_load_roundtrip_witness:
  "(\<forall>k n pt. map_option snd (aead_decrypt example_crypto k (aead_encrypt example_crypto k n [] pt))
               = Some pt) \<and>
   mnemonic example_keystore = Some ''abandon ability'' \<and>
   fst (save_mnemonic example_crypto example_keystore ''new'' (Some example_sd) example_user)
     = Inr PyTrue \<and>
   (\<exists>ks''. load_mnemonic example_crypto
             ((snd (save_mnemonic example_crypto example_keystore ''new'' (Some example_sd)
                      example_user))\<lparr>mnemonic := None, passphrase := ''x''\<rparr>)
             (Some example_sd) (Some (''specterdiy73646964'' @ ''.'' @ ''new'')) example_user
           = (Inr PyTrue, ks'') \<and> mnemonic ks'' = Some ''abandon ability'')"
proof -
  have rt: "\<forall>k n pt. map_option snd (aead_decrypt example_crypto k
                (aead_encrypt example_crypto k n [] pt)) = Some pt"
    by (simp add: example_crypto_def)
  have m: "mnemonic example_keystore = Some ''abandon ability''"
    by (simp add: example_keystore_def)
  have sv: "save_mnemonic example_crypto example_keystore ''new'' (Some example_sd) example_user
      = (Inr PyTrue, snd (save_mnemonic example_crypto example_keystore ''new'' (Some example_sd)
                            example_user))"
    by (simp add: model_defs example_defs)
  have fp: "fileprefix example_crypto example_keystore example_sd = ''specterdiy73646964''"
    by (simp add: model_defs example_defs)
  from save_mnemonic_then_load_roundtrip
         [OF rt m sv, where p = example_sd and ?m0.0 = None and ?pw0.0 = "''x''" and u' = example_user]
  have "\<exists>ks''. load_mnemonic example_crypto
             ((snd (save_mnemonic example_crypto example_keystore ''new'' (Some example_sd)
                      example_user))\<lparr>mnemonic := None, passphrase := ''x''\<rparr>)
             (Some example_sd) (Some (''specterdiy73646964'' @ ''.'' @ ''new'')) example_user
           = (Inr PyTrue, ks'') \<and> mnemonic ks'' = Some ''abandon ability''"
    by (simp add: fp)
  moreover have "fst (save_mnemonic example_crypto example_keystore ''new'' (Some example_sd)
                       example_user) = Inr PyTrue"
    by (simp add: model_defs example_defs)
  ultimately show ?thesis using rt m by blast
qed

text \<open>
  Claim C10. A \<^verbatim>\<open>load_mnemonic\<close> that returns \<^verbatim>\<open>True\<close> ends in
  \<^verbatim>\<open>set_mnemonic\<close> with the decrypted content of the file and the empty passphrase, so
  the mnemonic of the session is that content and its passphrase is empty; the same
  holds after a \<^verbatim>\<open>save_mnemonic\<close> that returns \<^verbatim>\<open>True\<close>, through its read-back.
\<close>

theorem load_mnemonic_sets_mnemonic_and_empty_passphrase:
  "(load_mnemonic c ks path fl u = (Inr PyTrue, ks') \<longrightarrow>
      (\<exists>p f adata data ksm.
          (path = Some p \<or> path = None \<and> media_choice u = Some p) \<and>
          (fl = Some f \<or> fl = None \<and> file_choice u = Some f) \<and>
          load_aead c (plat ks) (val p @ ''/'' @ f) (enc_secret ks) = Inr (adata, data) \<and>
          ks' = set_mnemonic ksm data '''' \<and>
          mnemonic ks' = Some data \<and> passphrase ks' = '''')) \<and>
   (save_mnemonic c ks filename path u = (Inr PyTrue, ks'') \<longrightarrow>
      (\<exists>p adata data ksm.
          (path = Some p \<or> path = None \<and> media_choice u = Some p) \<and>
          load_aead c (plat ks'') (val p @ ''/'' @ fileprefix c ks p @ ''.'' @ filename)
            (enc_secret ks) = Inr (adata, data) \<and>
          ks'' = set_mnemonic ksm data '''' \<and>
          mnemonic ks'' = Some data \<and> passphrase ks'' = ''''))"
proof (intro conjI impI)
  assume "load_mnemonic c ks path fl u = (Inr PyTrue, ks')"
  from load_success [OF this] obtain p f adata data ksm where
    "path = Some p \<or> path = None \<and> media_choice u = Some p"
    "fl = Some f \<or> fl = None \<and> file_choice u = Some f"
    "load_aead c (plat ks) (val p @ ''/'' @ f) (enc_secret ks) = Inr (adata, data)"
    "ks' = set_mnemonic ksm data ''''"
    by blast
  moreover from this have "mnemonic ks' = Some data \<and> passphrase ks' = ''''"
    by (simp add: set_mnemonic_def)
  ultimately show "\<exists>p f adata data ksm.
          (path = Some p \<or> path = None \<and> media_choice u = Some p) \<and>
          (fl = Some f \<or> fl = None \<and> file_choice u = Some f) \<and>
          load_aead c (plat ks) (val p @ ''/'' @ f) (enc_secret ks) = Inr (adata, data) \<and>
          ks' = set_mnemonic ksm data '''' \<and>
          mnemonic ks' = Some data \<and> passphrase ks' = ''''"
    by blast
next
  assume "save_mnemonic c ks filename path u = (Inr PyTrue, ks'')"
  from save_success [OF this] obtain p adata data ksm where
    "path = Some p \<or> path = None \<and> media_choice u = Some p"
    "load_aead c (plat ks'') (val p @ ''/'' @ fileprefix c ks p @ ''.'' @ filename)
             (enc_secret ks) = Inr (adata, data)"
    "ks'' = set_mnemonic ksm data ''''"
    by blast
  moreover from this have "mnemonic ks'' = Some data \<and> passphrase ks'' = ''''"
    by (simp add: set_mnemonic_def)
  ultimately show "\<exists>p adata data ksm.
          (path = Some p \<or> path = None \<and> media_choice u = Some p) \<and>
          load_aead c (plat ks'') (val p @ ''/'' @ fileprefix c ks p @ ''.'' @ filename)
            (enc_secret ks) = Inr (adata, data) \<and>
          ks'' = set_mnemonic ksm data '''' \<and>
          mnemonic ks'' = Some data \<and> passphrase ks'' = ''''"
    by blast
qed

text \<open>The example device: loading the record on the card, and saving a new one.\<close>

theorem load_mnemonic_sets_mnemonic_and_empty_passphrase_witness:
  "passphrase example_keystore = ''pass'' \<and>
   load_mnemonic example_crypto example_keystore (Some example_sd)
       (Some ''specterdiy73646964.main'') example_user
     = (Inr PyTrue, example_keystore\<lparr>mnemonic := Some ''zoo zone'', passphrase := ''''\<rparr>) \<and>
   fst (save_mnemonic example_crypto example_keystore ''new'' (Some example_sd) example_user)
     = Inr PyTrue \<and>
   passphrase (snd (save_mnemonic example_crypto example_keystore ''new'' (Some example_sd)
                      example_user)) = ''''"
  using load_mnemonic_sets_mnemonic_and_empty_passphrase
          [where c = example_crypto and ks = example_keystore and path = "Some example_sd"
             and fl = "Some ''specterdiy73646964.main''" and u = example_user
             and filename = "''new''"
             and ks' = "example_keystore\<lparr>mnemonic := Some ''zoo zone'', passphrase := ''''\<rparr>"
             and ks'' = "snd (save_mnemonic example_crypto example_keystore ''new''
                                (Some example_sd) example_user)"]
  by (simp add: model_defs example_defs)


end
